theory Spec2Isabelle
  imports Main "HOL-Library.Sublist"
begin

section \<open>Python values and the builtins that the consumer calls\<close>

text \<open>
  The consumer \<^verbatim>\<open>consumers/kafka_consumer_kabore.py\<close> receives one \<^verbatim>\<open>str\<close> per
  message, decodes it with \<^verbatim>\<open>json.loads\<close> when it looks like an object, and
  compares three fields of the decoded value with fixed thresholds.

  Strings are \<^typ>\<open>string\<close>; a \<^typ>\<open>char\<close> stands for the code point of the same
  number, so the model covers the messages whose code points are below 256.
  Python's \<^verbatim>\<open>int\<close> is \<^typ>\<open>int\<close>. A \<^verbatim>\<open>float\<close> is an IEEE binary64 value, written
  here as sign, mantissa and binary exponent: \<open>Finite s m e\<close> is \<open>(-1)^s * m * 2^e\<close>,
  with \<open>0 \<le> m\<close>.
  Two representations of the same number are the same float to every operation
  below, which compare and print by value.
\<close>

datatype pyfloat = Finite bool int int | Infinite bool | NaN

datatype pyval =
    PNone
  | PBool bool
  | PInt int
  | PFloat pyfloat
  | PStr string
  | PList "pyval list"
  | PDict "(string \<times> pyval) list"

text \<open>
  The exceptions that can leave the functions modelled here. \<open>OtherError\<close> stands
  for whatever else a decoder may raise besides \<^verbatim>\<open>json.JSONDecodeError\<close>.
\<close>

datatype exn = OverflowError | AttributeError | RecursionError | ValueError | OtherError

subsection \<open>\<^verbatim>\<open>str.strip\<close>, \<^verbatim>\<open>str.startswith\<close>, \<^verbatim>\<open>str.endswith\<close>, \<^verbatim>\<open>in\<close>\<close>

text \<open>
  \<^verbatim>\<open>str.strip()\<close> removes the characters for which \<^verbatim>\<open>str.isspace\<close> holds. Below
  256 these are TAB, LF, VT, FF, CR, the separators 0x1C to 0x1F, the space,
  NEL (0x85) and the no-break space (0xA0).
\<close>

definition isspace :: "char \<Rightarrow> bool" where
  "isspace c =
     (c \<in> set [CHR 0x09, CHR 0x0A, CHR 0x0B, CHR 0x0C, CHR 0x0D, CHR 0x1C, CHR 0x1D, CHR 0x1E,
                CHR 0x1F, CHR 0x20, CHR 0x85, CHR 0xA0])"

definition strip :: "string \<Rightarrow> string" where
  "strip s = rev (dropWhile isspace (rev (dropWhile isspace s)))"

definition startswith :: "string \<Rightarrow> string \<Rightarrow> bool" where
  "startswith s p = (take (length p) s = p)"

definition endswith :: "string \<Rightarrow> string \<Rightarrow> bool" where
  "endswith s p = (length p \<le> length s \<and> drop (length s - length p) s = p)"

text \<open>\<^verbatim>\<open>needle in hay\<close> for two strings: \<open>needle\<close> occurs as a contiguous piece.\<close>

fun str_contains :: "string \<Rightarrow> string \<Rightarrow> bool" where
  "str_contains [] needle = (needle = [])"
| "str_contains (c # cs) needle =
     (if startswith (c # cs) needle then True else str_contains cs needle)"

subsection \<open>Floats: rounding, \<^verbatim>\<open>float(int)\<close>, comparison\<close>

text \<open>\<^verbatim>\<open>int.bit_length\<close> of a number that is not negative.\<close>

function bit_length :: "int \<Rightarrow> nat" where
  "bit_length n = (if n \<le> 0 then 0 else Suc (bit_length (n div 2)))"
  by pat_completeness auto
termination
proof (relation "measure nat")
  show "wf (measure nat)"
    by simp
next
  fix n :: int
  assume "\<not> n \<le> 0"
  then have "nat (n div 2) < nat n"
    by simp
  then show "(n div 2, n) \<in> measure nat"
    by simp
qed

declare bit_length.simps [simp del]

text \<open>
  The integer nearest to \<open>n / d\<close>, a tie going to the even one, from the quotient
  \<open>q\<close> and the remainder \<open>r\<close>.
\<close>

definition rne_pick :: "int \<Rightarrow> int \<Rightarrow> int \<Rightarrow> int" where
  "rne_pick q r d =
     (if 2 * r < d then q
      else if d < 2 * r then q + 1
      else if even q then q else q + 1)"

definition rne :: "int \<Rightarrow> int \<Rightarrow> int" where
  "rne n d = rne_pick (n div d) (n mod d) d"

text \<open>
  The binary64 number nearest to \<open>n / d\<close> (for \<open>n \<ge> 0\<close> and \<open>d > 0\<close>),
  round-half-even, as mantissa and exponent; \<open>None\<close> when the rounded value
  exceeds the largest finite double. \<open>floor_log2 n d\<close> is the integer part of the
  binary logarithm of \<open>n / d\<close>, which differs from the difference of the bit
  lengths by at most one. The exponent is chosen so that the mantissa has 53
  bits, and not below \<open>-1074\<close>, where the subnormal numbers lie; a mantissa
  rounded up to \<open>2^53\<close> moves to the next exponent.
\<close>

definition floor_log2_near :: "int \<Rightarrow> int \<Rightarrow> int \<Rightarrow> int" where
  "floor_log2_near n d b =
     (if (if 0 \<le> b then d * 2 ^ nat b \<le> n else d \<le> n * 2 ^ nat (- b)) then b else b - 1)"

definition floor_log2 :: "int \<Rightarrow> int \<Rightarrow> int" where
  "floor_log2 n d = floor_log2_near n d (int (bit_length n) - int (bit_length d))"

definition rne_scaled :: "int \<Rightarrow> int \<Rightarrow> int \<Rightarrow> int" where
  "rne_scaled n d e = (if 0 \<le> e then rne n (d * 2 ^ nat e) else rne (n * 2 ^ nat (- e)) d)"

definition normalise :: "int \<Rightarrow> int \<Rightarrow> (int \<times> int) option" where
  "normalise m e =
     (if m = 2 ^ 53 then (if 970 < e then None else Some (2 ^ 52, e + 1))
      else if 971 < e then None else Some (m, e))"

definition round_to_double :: "int \<Rightarrow> int \<Rightarrow> (int \<times> int) option" where
  "round_to_double n d =
     (if n \<le> 0 then Some (0, 0)
      else normalise (rne_scaled n d (max (floor_log2 n d - 52) (- 1074)))
                     (max (floor_log2 n d - 52) (- 1074)))"

text \<open>
  \<^verbatim>\<open>float(n)\<close> for an \<^verbatim>\<open>int\<close>: the nearest double, and \<^verbatim>\<open>OverflowError\<close> ("int too
  large to convert to float") when there is none.
\<close>

definition float_of_int :: "int \<Rightarrow> exn + pyfloat" where
  "float_of_int n =
     (case round_to_double \<bar>n\<bar> 1 of
        None \<Rightarrow> Inl OverflowError
      | Some (m, e) \<Rightarrow> Inr (Finite (n < 0) m e))"

text \<open>The value of a finite float as an integer multiple of \<open>2^k\<close>, for \<open>k \<le> e\<close>.\<close>

definition scaled :: "bool \<Rightarrow> int \<Rightarrow> int \<Rightarrow> int \<Rightarrow> int" where
  "scaled s m e k = (if s then - 1 else 1) * m * 2 ^ nat (e - k)"

fun float_lt :: "pyfloat \<Rightarrow> pyfloat \<Rightarrow> bool" where
  "float_lt NaN y = False"
| "float_lt x NaN = False"
| "float_lt (Infinite s) (Infinite t) = (s \<and> \<not> t)"
| "float_lt (Infinite s) (Finite t n f) = s"
| "float_lt (Finite s m e) (Infinite t) = (\<not> t)"
| "float_lt (Finite s m e) (Finite t n f) =
     (scaled s m e (min e f) < scaled t n f (min e f))"

text \<open>The literal \<^verbatim>\<open>0.40\<close> of the source: the double nearest to \<open>2/5\<close>.\<close>

definition f040 :: pyfloat where
  "f040 = Finite False 3602879701896397 (- 53)"

text \<open>
  \<^verbatim>\<open>float(x)\<close> for a value that passed \<^verbatim>\<open>isinstance(x, (int, float))\<close>; \<^verbatim>\<open>bool\<close> is a
  subclass of \<^verbatim>\<open>int\<close>, \<^verbatim>\<open>True\<close> being 1 and \<^verbatim>\<open>False\<close> 0. \<open>None\<close> is the failed type
  test.
\<close>

fun as_int :: "pyval \<Rightarrow> int option" where
  "as_int (PInt n) = Some n"
| "as_int (PBool b) = Some (if b then 1 else 0)"
| "as_int v = None"

fun as_number :: "pyval \<Rightarrow> (exn + pyfloat) option" where
  "as_number (PFloat x) = Some (Inr x)"
| "as_number v = (case as_int v of None \<Rightarrow> None | Some n \<Rightarrow> Some (float_of_int n))"

subsection \<open>\<^verbatim>\<open>str\<close> and \<^verbatim>\<open>repr\<close>: what an f-string substitutes\<close>

text \<open>The decimal digits of a number that is not negative.\<close>

function digits10 :: "int \<Rightarrow> string" where
  "digits10 n =
     (if n < 10 then [char_of (48 + n)]
      else digits10 (n div 10) @ [char_of (48 + n mod 10)])"
  by pat_completeness auto
termination
proof (relation "measure nat")
  show "wf (measure nat)"
    by simp
next
  fix n :: int
  assume "\<not> n < 10"
  then have "nat (n div 10) < nat n"
    by simp
  then show "(n div 10, n) \<in> measure nat"
    by simp
qed

declare digits10.simps [simp del]

definition int_str :: "int \<Rightarrow> string" where
  "int_str n = (if n < 0 then CHR ''-'' # digits10 (- n) else digits10 n)"

text \<open>
  \<^verbatim>\<open>repr\<close> of a float is the shortest decimal string that reads back as the same
  double, and among the shortest ones the nearest. A positive \<open>m * 2^e\<close> is the
  fraction \<open>float_ratio m e\<close>; \<open>decimal_point\<close> is the \<open>K\<close> with
  \<open>10^(K-1) \<le> m * 2^e < 10^K\<close>.
\<close>

definition float_ratio :: "int \<Rightarrow> int \<Rightarrow> int \<times> int" where
  "float_ratio m e = (if 0 \<le> e then (m * 2 ^ nat e, 1) else (m, 2 ^ nat (- e)))"

function scale_up :: "int \<Rightarrow> int \<Rightarrow> nat" where
  "scale_up num den =
     (if num \<le> 0 \<or> den \<le> num then 0 else Suc (scale_up (10 * num) den))"
  by pat_completeness auto
termination
proof (relation "measure (\<lambda>(num, den). nat (den - num))")
  show "wf (measure (\<lambda>(num, den). nat (den - num)))"
    by simp
next
  fix num den :: int
  assume "\<not> (num \<le> 0 \<or> den \<le> num)"
  then have "nat (den - 10 * num) < nat (den - num)"
    by simp
  then show "((10 * num, den), (num, den)) \<in> measure (\<lambda>(num, den). nat (den - num))"
    by simp
qed

declare scale_up.simps [simp del]

definition decimal_point :: "int \<Rightarrow> int \<Rightarrow> int" where
  "decimal_point num den =
     (if den \<le> num then int (length (digits10 (num div den)))
      else 1 - int (scale_up num den))"

text \<open>The double nearest to \<open>c * 10^s\<close>, and the test that it is \<open>m * 2^e\<close>.\<close>

definition decimal_to_double :: "int \<Rightarrow> int \<Rightarrow> (int \<times> int) option" where
  "decimal_to_double c s =
     (if 0 \<le> s then round_to_double (c * 10 ^ nat s) 1
      else round_to_double c (10 ^ nat (- s)))"

definition same_value :: "(int \<times> int) option \<Rightarrow> int \<Rightarrow> int \<Rightarrow> bool" where
  "same_value r m e =
     (case r of
        None \<Rightarrow> False
      | Some (m', e') \<Rightarrow> scaled False m' e' (min e e') = scaled False m e (min e e'))"

text \<open>
  The two decimals of \<open>p\<close> digits around \<open>m * 2^e\<close> are \<open>lo * 10^s\<close> and
  \<open>(lo + 1) * 10^s\<close> with \<open>s = K - p\<close>. The search tries \<open>p = 1, 2, ...\<close> and
  stops at the first \<open>p\<close> for which one of them reads back as the same double,
  taking the nearer one when both do; at 17 digits the nearer of the two always
  does.
\<close>

definition scaled_num :: "int \<Rightarrow> int \<Rightarrow> int \<Rightarrow> int" where
  "scaled_num m e s =
     (if 0 \<le> s then fst (float_ratio m e) else fst (float_ratio m e) * 10 ^ nat (- s))"

definition scaled_den :: "int \<Rightarrow> int \<Rightarrow> int \<Rightarrow> int" where
  "scaled_den m e s =
     (if 0 \<le> s then snd (float_ratio m e) * 10 ^ nat s else snd (float_ratio m e))"

definition lo_digits :: "int \<Rightarrow> int \<Rightarrow> int \<Rightarrow> int" where
  "lo_digits m e s = scaled_num m e s div scaled_den m e s"

definition nearest_digits :: "int \<Rightarrow> int \<Rightarrow> int \<Rightarrow> int" where
  "nearest_digits m e s = rne (scaled_num m e s) (scaled_den m e s)"

definition reads_back :: "int \<Rightarrow> int \<Rightarrow> int \<Rightarrow> int \<Rightarrow> bool" where
  "reads_back c s m e = same_value (decimal_to_double c s) m e"

fun shortest_digits :: "nat \<Rightarrow> nat \<Rightarrow> int \<Rightarrow> int \<Rightarrow> int \<Rightarrow> int \<times> int" where
  "shortest_digits 0 p m e K = (nearest_digits m e (K - int p), K - int p)"
| "shortest_digits (Suc k) p m e K =
     (if reads_back (lo_digits m e (K - int p)) (K - int p) m e then
        (if reads_back (lo_digits m e (K - int p) + 1) (K - int p) m e
         then (nearest_digits m e (K - int p), K - int p)
         else (lo_digits m e (K - int p), K - int p))
      else if reads_back (lo_digits m e (K - int p) + 1) (K - int p) m e
      then (lo_digits m e (K - int p) + 1, K - int p)
      else shortest_digits k (Suc p) m e K)"

function strip_zeros :: "int \<Rightarrow> int \<Rightarrow> int \<times> int" where
  "strip_zeros c s =
     (if 0 < c \<and> c mod 10 = 0 then strip_zeros (c div 10) (s + 1) else (c, s))"
  by pat_completeness auto
termination
proof (relation "measure (\<lambda>(c, s). nat c)")
  show "wf (measure (\<lambda>(c, s). nat c))"
    by simp
next
  fix c s :: int
  assume "0 < c \<and> c mod 10 = 0"
  then have "nat (c div 10) < nat c"
    by (simp add: int_div_less_self)
  then show "((c div 10, s + 1), (c, s)) \<in> measure (\<lambda>(c, s). nat c)"
    by simp
qed

declare strip_zeros.simps [simp del]

text \<open>
  The digits are laid out as \<^verbatim>\<open>repr\<close> does: exponent notation when the decimal
  point would lie more than 16 places right of the first digit or more than 3
  places left of it, \<open>.0\<close> appended to a whole number.
\<close>

definition layout_at :: "string \<Rightarrow> int \<Rightarrow> int \<Rightarrow> string" where
  "layout_at ds n decpt =
     (if 16 < decpt \<or> decpt < - 3 then
        take 1 ds @ (if 1 < n then CHR ''.'' # drop 1 ds else [])
        @ ''e'' @ (if decpt - 1 < 0 then ''-'' else ''+'')
        @ (if \<bar>decpt - 1\<bar> < 10 then ''0'' else [])
        @ digits10 \<bar>decpt - 1\<bar>
      else if decpt \<le> 0 then ''0.'' @ replicate (nat (- decpt)) (CHR ''0'') @ ds
      else if n \<le> decpt then ds @ replicate (nat (decpt - n)) (CHR ''0'') @ ''.0''
      else take (nat decpt) ds @ ''.'' @ drop (nat decpt) ds)"

definition layout :: "string \<Rightarrow> int \<Rightarrow> string" where
  "layout ds s = layout_at ds (int (length ds)) (int (length ds) + s)"

definition layout_digits :: "int \<times> int \<Rightarrow> string" where
  "layout_digits cs = layout (digits10 (fst cs)) (snd cs)"

definition strip_digits :: "int \<times> int \<Rightarrow> int \<times> int" where
  "strip_digits cs = strip_zeros (fst cs) (snd cs)"

definition positive_repr :: "int \<Rightarrow> int \<Rightarrow> string" where
  "positive_repr m e =
     layout_digits (strip_digits
       (shortest_digits 16 1 m e
          (decimal_point (fst (float_ratio m e)) (snd (float_ratio m e)))))"

fun float_repr :: "pyfloat \<Rightarrow> string" where
  "float_repr NaN = ''nan''"
| "float_repr (Infinite s) = (if s then ''-inf'' else ''inf'')"
| "float_repr (Finite sg m e) =
     (if sg then ''-'' else []) @ (if m = 0 then ''0.0'' else positive_repr m e)"

text \<open>
  \<^verbatim>\<open>repr\<close> of a string: single quotes, unless the string has a single quote and
  no double quote; the quote and the backslash escaped, TAB, LF and CR by
  letter, every other unprintable character as \<^verbatim>\<open>\xhh\<close>.
\<close>

definition hex_digit :: "int \<Rightarrow> char" where
  "hex_digit d = (if d < 10 then char_of (48 + d) else char_of (87 + d))"

definition isprintable :: "char \<Rightarrow> bool" where
  "isprintable c =
     ((32 \<le> (of_char c :: int) \<and> (of_char c :: int) < 127)
      \<or> (161 \<le> (of_char c :: int) \<and> (of_char c :: int) \<noteq> 173))"

definition repr_char :: "char \<Rightarrow> char \<Rightarrow> string" where
  "repr_char q c =
     (if c = q \<or> c = CHR 0x5C then [CHR 0x5C, c]
      else if c = CHR 0x09 then [CHR 0x5C, CHR ''t'']
      else if c = CHR 0x0A then [CHR 0x5C, CHR ''n'']
      else if c = CHR 0x0D then [CHR 0x5C, CHR ''r'']
      else if isprintable c then [c]
      else [CHR 0x5C, CHR ''x'', hex_digit (of_char c div 16), hex_digit (of_char c mod 16)])"

definition str_repr :: "string \<Rightarrow> string" where
  "str_repr s =
     (let q = (if CHR 0x27 \<in> set s \<and> CHR 0x22 \<notin> set s then CHR 0x22 else CHR 0x27)
      in q # concat (map (repr_char q) s) @ [q])"

fun py_repr :: "pyval \<Rightarrow> string"
  and py_repr_list :: "pyval list \<Rightarrow> string"
  and py_repr_items :: "(string \<times> pyval) list \<Rightarrow> string" where
  "py_repr PNone = ''None''"
| "py_repr (PBool b) = (if b then ''True'' else ''False'')"
| "py_repr (PInt n) = int_str n"
| "py_repr (PFloat x) = float_repr x"
| "py_repr (PStr s) = str_repr s"
| "py_repr (PList xs) = ''['' @ py_repr_list xs @ '']''"
| "py_repr (PDict kvs) = ''{'' @ py_repr_items kvs @ ''}''"
| "py_repr_list [] = []"
| "py_repr_list [x] = py_repr x"
| "py_repr_list (x # y # ys) = py_repr x @ '', '' @ py_repr_list (y # ys)"
| "py_repr_items [] = []"
| "py_repr_items [(k, v)] = str_repr k @ '': '' @ py_repr v"
| "py_repr_items ((k, v) # kv # kvs) =
     str_repr k @ '': '' @ py_repr v @ '', '' @ py_repr_items (kv # kvs)"

text \<open>\<^verbatim>\<open>str(v)\<close>, which is what \<^verbatim>\<open>f"{v}"\<close> inserts: a string as it is, else the \<^verbatim>\<open>repr\<close>.\<close>

definition py_str :: "pyval \<Rightarrow> string" where
  "py_str v = (case v of PStr s \<Rightarrow> s | _ \<Rightarrow> py_repr v)"

section \<open>The decoder \<^verbatim>\<open>json.loads\<close>\<close>

text \<open>
  \<^verbatim>\<open>json.loads\<close> belongs to the standard library, not to the consumer, so the
  consumer is modelled over an arbitrary decoder: a function from the text to one
  of the three outcomes a call can have. The general theorems hold for every
  such function. \<open>json_loads\<close> below is the decoder itself, for the texts whose
  \<^verbatim>\<open>\u\<close> escapes stay below U+0100 (an escape above that leaves the 8-bit strings
  of the model and is reported as \<open>Raised OtherError\<close>); it is used to run the
  consumer on concrete messages. The interpreter's limits on nesting depth and
  on the number of digits of an integer are settings and are not part of it.
\<close>

datatype loads_result = Decoded pyval | JSONDecodeError | Raised exn

datatype 'a parsed = Parsed 'a string | Invalid | Failed exn

definition json_ws :: "char \<Rightarrow> bool" where
  "json_ws c = (c = CHR '' '' \<or> c = CHR 0x09 \<or> c = CHR 0x0A \<or> c = CHR 0x0D)"

definition skip_ws :: "string \<Rightarrow> string" where
  "skip_ws s = dropWhile json_ws s"

definition is_digit :: "char \<Rightarrow> bool" where
  "is_digit c = (c \<in> set ''0123456789'')"

definition nat_of_digits :: "string \<Rightarrow> int" where
  "nat_of_digits ds = foldl (\<lambda>a c. 10 * a + (of_char c - 48)) 0 ds"

definition hex_val :: "char \<Rightarrow> int option" where
  "hex_val c =
     (let n = (of_char c :: int)
      in if 48 \<le> n \<and> n \<le> 57 then Some (n - 48)
         else if 65 \<le> n \<and> n \<le> 70 then Some (n - 55)
         else if 97 \<le> n \<and> n \<le> 102 then Some (n - 87)
         else None)"

definition hex4 :: "char \<Rightarrow> char \<Rightarrow> char \<Rightarrow> char \<Rightarrow> int option" where
  "hex4 a b c d =
     (case (hex_val a, hex_val b, hex_val c, hex_val d) of
        (Some x, Some y, Some z, Some u) \<Rightarrow> Some (((x * 16 + y) * 16 + z) * 16 + u)
      | _ \<Rightarrow> None)"

definition unescape :: "char \<Rightarrow> char option" where
  "unescape e =
     (if e = CHR 0x22 \<or> e = CHR 0x5C \<or> e = CHR ''/'' then Some e
      else if e = CHR ''b'' then Some (CHR 0x08)
      else if e = CHR ''f'' then Some (CHR 0x0C)
      else if e = CHR ''n'' then Some (CHR 0x0A)
      else if e = CHR ''r'' then Some (CHR 0x0D)
      else if e = CHR ''t'' then Some (CHR 0x09)
      else None)"

definition cons_parsed :: "char \<Rightarrow> string parsed \<Rightarrow> string parsed" where
  "cons_parsed c p = (case p of Parsed s r \<Rightarrow> Parsed (c # s) r | Invalid \<Rightarrow> Invalid | Failed e \<Rightarrow> Failed e)"

text \<open>
  The body of a string, from the character after the opening quote to the closing
  quote: a control character (below 0x20) is refused, a backslash starts an
  escape.
\<close>

fun scanstring :: "string \<Rightarrow> string parsed" where
  "scanstring [] = Invalid"
| "scanstring (c # cs) =
     (if c = CHR 0x22 then Parsed [] cs
      else if c = CHR 0x5C then
        (case cs of
           [] \<Rightarrow> Invalid
         | e # r \<Rightarrow>
             if e = CHR ''u'' then
               (case r of
                  h1 # h2 # h3 # h4 # r' \<Rightarrow>
                    (case hex4 h1 h2 h3 h4 of
                       None \<Rightarrow> Invalid
                     | Some n \<Rightarrow>
                         if 256 \<le> n then Failed OtherError
                         else cons_parsed (char_of n) (scanstring r'))
                | _ \<Rightarrow> Invalid)
             else
               (case unescape e of
                  None \<Rightarrow> Invalid
                | Some ch \<Rightarrow> cons_parsed ch (scanstring r)))
      else if (of_char c :: int) < 32 then Invalid
      else cons_parsed c (scanstring cs))"

text \<open>
  A number is \<^verbatim>\<open>-?(0|[1-9][0-9]*)(\.[0-9]+)?([eE][-+]?[0-9]+)?\<close>; with neither
  fraction nor exponent it is an \<^verbatim>\<open>int\<close>, else the \<^verbatim>\<open>float\<close> nearest to the decimal.
\<close>

definition float_of_decimal :: "bool \<Rightarrow> string \<Rightarrow> string \<Rightarrow> int \<Rightarrow> pyfloat" where
  "float_of_decimal neg ip fp ex =
     (case decimal_to_double (nat_of_digits (ip @ fp)) (ex - int (length fp)) of
        None \<Rightarrow> Infinite neg
      | Some (m, e) \<Rightarrow> Finite neg m e)"

definition match_fraction :: "string \<Rightarrow> (string \<times> string) option" where
  "match_fraction s =
     (case s of
        c # d # r \<Rightarrow>
          if c = CHR ''.'' \<and> is_digit d
          then Some (takeWhile is_digit (d # r), dropWhile is_digit (d # r))
          else None
      | _ \<Rightarrow> None)"

definition exponent_digits :: "bool \<Rightarrow> string \<Rightarrow> (int \<times> string) option" where
  "exponent_digits neg r =
     (if takeWhile is_digit r = [] then None
      else Some ((if neg then - nat_of_digits (takeWhile is_digit r)
                  else nat_of_digits (takeWhile is_digit r)),
                 dropWhile is_digit r))"

fun match_exponent :: "string \<Rightarrow> (int \<times> string) option" where
  "match_exponent [] = None"
| "match_exponent [c] = None"
| "match_exponent (c # g # r) =
     (if c = CHR ''e'' \<or> c = CHR ''E'' then
        (if g = CHR ''-'' then exponent_digits True r
         else if g = CHR ''+'' then exponent_digits False r
         else exponent_digits False (g # r))
      else None)"

definition int_of_digits :: "bool \<Rightarrow> string \<Rightarrow> int" where
  "int_of_digits neg ip = (if neg then - nat_of_digits ip else nat_of_digits ip)"

definition match_tail :: "bool \<Rightarrow> string \<Rightarrow> string \<Rightarrow> (pyval \<times> string) option" where
  "match_tail neg ip s2 =
     (case match_fraction s2 of
        None \<Rightarrow>
          (case match_exponent s2 of
             None \<Rightarrow> Some (PInt (int_of_digits neg ip), s2)
           | Some (ex, s4) \<Rightarrow> Some (PFloat (float_of_decimal neg ip [] ex), s4))
      | Some (fp, s3) \<Rightarrow>
          (case match_exponent s3 of
             None \<Rightarrow> Some (PFloat (float_of_decimal neg ip fp 0), s3)
           | Some (ex, s4) \<Rightarrow> Some (PFloat (float_of_decimal neg ip fp ex), s4)))"

fun match_unsigned :: "bool \<Rightarrow> string \<Rightarrow> (pyval \<times> string) option" where
  "match_unsigned neg [] = None"
| "match_unsigned neg (c # t) =
     (if \<not> is_digit c then None
      else if c = CHR ''0'' then match_tail neg [c] t
      else match_tail neg (takeWhile is_digit (c # t)) (dropWhile is_digit (c # t)))"

fun match_number :: "string \<Rightarrow> (pyval \<times> string) option" where
  "match_number [] = None"
| "match_number (c # t) =
     (if c = CHR ''-'' then match_unsigned True t else match_unsigned False (c # t))"

text \<open>
  A \<^verbatim>\<open>dict\<close> keeps its keys in the order of their first insertion; storing under a
  key that is present replaces the value where it stands.
\<close>

fun dict_set :: "string \<Rightarrow> pyval \<Rightarrow> (string \<times> pyval) list \<Rightarrow> (string \<times> pyval) list" where
  "dict_set k v [] = [(k, v)]"
| "dict_set k v ((k', v') # kvs) =
     (if k' = k then (k, v) # kvs else (k', v') # dict_set k v kvs)"

text \<open>
  A value that is neither a string, an object nor an array: one of the words
  \<^verbatim>\<open>null\<close>, \<^verbatim>\<open>true\<close>, \<^verbatim>\<open>false\<close>, a number, or one of the words \<^verbatim>\<open>NaN\<close>, \<^verbatim>\<open>Infinity\<close>,
  \<^verbatim>\<open>-Infinity\<close>, which the decoder accepts as floats.
\<close>

definition scan_atom :: "string \<Rightarrow> pyval parsed" where
  "scan_atom s =
     (if startswith s ''null'' then Parsed PNone (drop 4 s)
      else if startswith s ''true'' then Parsed (PBool True) (drop 4 s)
      else if startswith s ''false'' then Parsed (PBool False) (drop 5 s)
      else
        (case match_number s of
           Some (v, r) \<Rightarrow> Parsed v r
         | None \<Rightarrow>
             if startswith s ''NaN'' then Parsed (PFloat NaN) (drop 3 s)
             else if startswith s ''Infinity'' then Parsed (PFloat (Infinite False)) (drop 8 s)
             else if startswith s ''-Infinity'' then Parsed (PFloat (Infinite True)) (drop 9 s)
             else Invalid))"

text \<open>
  The scanner. The first argument bounds the number of nested calls; \<open>json_loads\<close>
  starts it above twice the length of the text, which no run uses up
  (\<open>json_loads_fuel\<close> below): a value takes at least one character, and a call for
  the elements of an array is made at most once more per character.
\<close>

fun scan_once :: "nat \<Rightarrow> string \<Rightarrow> pyval parsed"
  and json_members :: "nat \<Rightarrow> (string \<times> pyval) list \<Rightarrow> string \<Rightarrow> pyval parsed"
  and json_elements :: "nat \<Rightarrow> pyval list \<Rightarrow> string \<Rightarrow> pyval parsed" where
  "scan_once 0 s = Failed RecursionError"
| "scan_once (Suc n) s =
     (case s of
        [] \<Rightarrow> Invalid
      | c # cs \<Rightarrow>
          if c = CHR 0x22 then
            (case scanstring cs of
               Parsed str r \<Rightarrow> Parsed (PStr str) r
             | Invalid \<Rightarrow> Invalid
             | Failed e \<Rightarrow> Failed e)
          else if c = CHR ''{'' then
            (case skip_ws cs of
               [] \<Rightarrow> Invalid
             | d # r \<Rightarrow>
                 if d = CHR ''}'' then Parsed (PDict []) r
                 else if d = CHR 0x22 then json_members n [] r
                 else Invalid)
          else if c = CHR ''['' then
            (case skip_ws cs of
               [] \<Rightarrow> Invalid
             | d # r \<Rightarrow>
                 if d = CHR '']'' then Parsed (PList []) r
                 else json_elements n [] (d # r))
          else scan_atom s)"
| "json_members 0 acc s = Failed RecursionError"
| "json_members (Suc n) acc s =
     (case scanstring s of
        Invalid \<Rightarrow> Invalid
      | Failed e \<Rightarrow> Failed e
      | Parsed key r \<Rightarrow>
          (case skip_ws r of
             [] \<Rightarrow> Invalid
           | c # r2 \<Rightarrow>
               if c \<noteq> CHR '':'' then Invalid
               else
                 (case scan_once n (skip_ws r2) of
                    Invalid \<Rightarrow> Invalid
                  | Failed e \<Rightarrow> Failed e
                  | Parsed v r3 \<Rightarrow>
                      (case skip_ws r3 of
                         [] \<Rightarrow> Invalid
                       | d # r4 \<Rightarrow>
                           if d = CHR ''}'' then Parsed (PDict (dict_set key v acc)) r4
                           else if d = CHR '','' then
                             (case skip_ws r4 of
                                [] \<Rightarrow> Invalid
                              | q # r5 \<Rightarrow>
                                  if q = CHR 0x22 then json_members n (dict_set key v acc) r5
                                  else Invalid)
                           else Invalid))))"
| "json_elements 0 acc s = Failed RecursionError"
| "json_elements (Suc n) acc s =
     (case scan_once n s of
        Invalid \<Rightarrow> Invalid
      | Failed e \<Rightarrow> Failed e
      | Parsed v r \<Rightarrow>
          (case skip_ws r of
             [] \<Rightarrow> Invalid
           | d # r2 \<Rightarrow>
               if d = CHR '']'' then Parsed (PList (acc @ [v])) r2
               else if d = CHR '','' then json_elements n (acc @ [v]) (skip_ws r2)
               else Invalid))"

definition json_loads :: "string \<Rightarrow> loads_result" where
  "json_loads s =
     (case scan_once (Suc (2 * length s)) (skip_ws s) of
        Invalid \<Rightarrow> JSONDecodeError
      | Failed e \<Rightarrow> Raised e
      | Parsed v r \<Rightarrow> if skip_ws r = [] then Decoded v else JSONDecodeError)"

section \<open>The consumer\<close>

text \<open>
  What the consumer does to the outside is to print and to log. The world is what
  has been printed and what has been logged so far, oldest first; every function
  that has an effect takes the world and returns it extended.
\<close>

datatype level = DEBUG | INFO | WARNING | ERROR

record world =
  stdout :: "string list"
  logged :: "(level \<times> string) list"

definition print :: "string \<Rightarrow> world \<Rightarrow> world" where
  "print s w = w\<lparr>stdout := stdout w @ [s]\<rparr>"

definition logger_info :: "string \<Rightarrow> world \<Rightarrow> world" where
  "logger_info s w = w\<lparr>logged := logged w @ [(INFO, s)]\<rparr>"

definition logger_warning :: "string \<Rightarrow> world \<Rightarrow> world" where
  "logger_warning s w = w\<lparr>logged := logged w @ [(WARNING, s)]\<rparr>"

text \<open>\<^verbatim>\<open>print(alert); logger.warning(alert)\<close>, the two statements after every alert.\<close>

definition emit :: "string \<Rightarrow> world \<Rightarrow> world" where
  "emit alert w = logger_warning alert (print alert w)"

text \<open>
  \<^verbatim>\<open>_try_parse_json\<close>: the decoded value, \<^verbatim>\<open>None\<close> when the text is not tried or does
  not decode; an exception of the decoder other than \<^verbatim>\<open>JSONDecodeError\<close> is not
  caught.
\<close>

definition try_parse_json :: "(string \<Rightarrow> loads_result) \<Rightarrow> string \<Rightarrow> exn + pyval" where
  "try_parse_json loads s =
     (if \<not> (startswith (strip s) ''{'' \<and> endswith (strip s) ''}'') then Inr PNone
      else case loads (strip s) of
             Decoded v \<Rightarrow> Inr v
           | JSONDecodeError \<Rightarrow> Inr PNone
           | Raised e \<Rightarrow> Inl e)"

text \<open>\<^verbatim>\<open>evt.get(k)\<close> on a \<^verbatim>\<open>dict\<close>: the value, or \<^verbatim>\<open>None\<close> for an absent key.\<close>

definition dict_get :: "(string \<times> pyval) list \<Rightarrow> string \<Rightarrow> pyval" where
  "dict_get d k = (case map_of d k of None \<Rightarrow> PNone | Some v \<Rightarrow> v)"

text \<open>
  The three conditions. \<^verbatim>\<open>isinstance(hr, int) and hr > 120\<close>, with 12 for the
  steps; \<^verbatim>\<open>isinstance(gait, (int, float)) and float(gait) < 0.40\<close>, where the
  conversion can raise.
\<close>

definition int_above :: "pyval \<Rightarrow> int \<Rightarrow> bool" where
  "int_above v bound = (case as_int v of None \<Rightarrow> False | Some n \<Rightarrow> bound < n)"

definition gait_low :: "pyval \<Rightarrow> exn + bool" where
  "gait_low v =
     (case as_number v of
        None \<Rightarrow> Inr False
      | Some (Inl e) \<Rightarrow> Inl e
      | Some (Inr x) \<Rightarrow> Inr (float_lt x f040))"

definition tachycardia_alert :: "pyval \<Rightarrow> pyval \<Rightarrow> pyval \<Rightarrow> string" where
  "tachycardia_alert pid hr ts =
     ''ALERT Tachycardia: patient='' @ py_str pid @ '' hr='' @ py_str hr @ '' ts='' @ py_str ts"

definition gait_alert :: "pyval \<Rightarrow> pyval \<Rightarrow> pyval \<Rightarrow> string" where
  "gait_alert pid gait ts =
     ''ALERT Low gait_score: patient='' @ py_str pid @ '' gait_score='' @ py_str gait
     @ '' ts='' @ py_str ts"

definition steps_alert :: "pyval \<Rightarrow> pyval \<Rightarrow> pyval \<Rightarrow> string" where
  "steps_alert pid steps ts =
     ''ALERT Step surge: patient='' @ py_str pid @ '' steps='' @ py_str steps @ '' ts='' @ py_str ts"

definition special :: string where
  "special = ''I just loved a movie! It was funny.''"

definition special_alert :: "string \<Rightarrow> string" where
  "special_alert message = ''ALERT: The special message was found!'' @ [CHR 0x0A] @ message"

text \<open>
  \<^verbatim>\<open>process_message\<close>. The result is the exception that ended the call, if any, and
  the world at that point. \<^verbatim>\<open>evt.get\<close> exists on a \<^verbatim>\<open>dict\<close> only: any other value
  that is not \<^verbatim>\<open>None\<close> gives \<^verbatim>\<open>AttributeError\<close> at the first \<^verbatim>\<open>get\<close>.
\<close>

definition process_message ::
  "(string \<Rightarrow> loads_result) \<Rightarrow> string \<Rightarrow> world \<Rightarrow> exn option \<times> world" where
  "process_message loads message w0 =
     (let w1 = logger_info (''Processing message: '' @ message) w0
      in case try_parse_json loads message of
           Inl e \<Rightarrow> (Some e, w1)
         | Inr PNone \<Rightarrow>
             (None, if str_contains message special then emit (special_alert message) w1 else w1)
         | Inr (PDict evt) \<Rightarrow>
             (let hr = dict_get evt ''hr'';
                  gait = dict_get evt ''gait_score'';
                  steps = dict_get evt ''steps'';
                  pid = dict_get evt ''patient_id'';
                  ts = dict_get evt ''ts'';
                  w2 = (if int_above hr 120 then emit (tachycardia_alert pid hr ts) w1 else w1)
              in case gait_low gait of
                   Inl e \<Rightarrow> (Some e, w2)
                 | Inr low \<Rightarrow>
                     (let w3 = (if low then emit (gait_alert pid gait ts) w2 else w2);
                          w4 = (if int_above steps 12 then emit (steps_alert pid steps ts) w3 else w3)
                      in (None, w4)))
         | Inr other \<Rightarrow> (Some AttributeError, w1))"

text \<open>The world before the first message.\<close>

definition world0 :: world where
  "world0 = \<lparr>stdout = [], logged = []\<rparr>"

text \<open>The four kinds of alert, told apart by how the text begins.\<close>

definition is_tachycardia :: "string \<Rightarrow> bool" where
  "is_tachycardia a = startswith a ''ALERT Tachycardia:''"

definition is_low_gait :: "string \<Rightarrow> bool" where
  "is_low_gait a = startswith a ''ALERT Low gait_score:''"

definition is_step_surge :: "string \<Rightarrow> bool" where
  "is_step_surge a = startswith a ''ALERT Step surge:''"

definition is_special :: "string \<Rightarrow> bool" where
  "is_special a = startswith a ''ALERT: The special message was found!''"

text \<open>
  What one call adds to the printed lines and to the log, and how a field of the
  event appears in an alert: an absent key as \<^verbatim>\<open>None\<close>.
\<close>

definition printed_by :: "(string \<Rightarrow> loads_result) \<Rightarrow> string \<Rightarrow> world \<Rightarrow> string list" where
  "printed_by loads message w =
     drop (length (stdout w)) (stdout (snd (process_message loads message w)))"

definition logged_by ::
  "(string \<Rightarrow> loads_result) \<Rightarrow> string \<Rightarrow> world \<Rightarrow> (level \<times> string) list" where
  "logged_by loads message w =
     drop (length (logged w)) (logged (snd (process_message loads message w)))"

definition rendered :: "(string \<times> pyval) list \<Rightarrow> string \<Rightarrow> string" where
  "rendered evt k = (case map_of evt k of None \<Rightarrow> ''None'' | Some v \<Rightarrow> py_str v)"

section \<open>Messages used as examples\<close>



definition message_p2 :: string where
  "message_p2 = ''{\"gait_score\": 0.2, \"patient_id\": \"p2\", \"ts\": \"t2\"}''"

definition message_p3 :: string where
  "message_p3 = ''{\"steps\": 20, \"hr\": 130, \"patient_id\": \"p3\", \"ts\": \"t3\"}''"

definition message_false :: string where
  "message_false = ''{\"gait_score\": false}''"

definition message_p9 :: string where
  "message_p9 = ''{\"gait_score\": false, \"patient_id\": \"p9\", \"ts\": \"t9\"}''"


definition message_movie :: string where
  "message_movie = ''I just loved a movie! It was funny.''"

definition message_trailing :: string where
  "message_trailing = ''{\"hr\": 150}}''"

definition message_note :: string where
  "message_note = ''{\"note\": \"I just loved a movie! It was funny.\"}''"


definition message_types :: string where
  "message_types = ''{\"hr\": true, \"steps\": 160.0, \"gait_score\": 0}''"

definition event_types :: "(string \<times> pyval) list" where
  "event_types =
     [(''hr'', PBool True), (''steps'', PFloat (Finite False 5629499534213120 (- 45))),
      (''gait_score'', PInt 0)]"

definition message_huge :: string where
  "message_huge = ''{\"gait_score\": 1'' @ replicate 309 (CHR ''0'') @ ''}''"

definition message_huge_negative :: string where
  "message_huge_negative =
     ''{\"gait_score\": -1'' @ replicate 309 (CHR ''0'') @ '', \"patient_id\": \"p2\", \"ts\": \"t2\"}''"

definition message_huge_steps :: string where
  "message_huge_steps =
     ''{\"hr\": 130, \"steps\": 20, \"gait_score\": 1'' @ replicate 309 (CHR ''0'') @ ''}''"

definition message_040 :: string where
  "message_040 = ''{\"gait_score\": 0.40, \"patient_id\": \"p2\", \"ts\": \"t2\"}''"

section \<open>Basic facts\<close>

lemma stdout_emit [simp]: "stdout (emit a w) = stdout w @ [a]"
  by (simp add: emit_def print_def logger_warning_def)

lemma logged_emit [simp]: "logged (emit a w) = logged w @ [(WARNING, a)]"
  by (simp add: emit_def print_def logger_warning_def)

lemma stdout_logger_info [simp]: "stdout (logger_info s w) = stdout w"
  by (simp add: logger_info_def)

lemma logged_logger_info [simp]: "logged (logger_info s w) = logged w @ [(INFO, s)]"
  by (simp add: logger_info_def)

lemma py_str_simps [simp]:
  "py_str PNone = ''None''"
  "py_str (PBool b) = (if b then ''True'' else ''False'')"
  "py_str (PInt n) = int_str n"
  "py_str (PFloat x) = float_repr x"
  "py_str (PStr t) = t"
  by (simp_all add: py_str_def)

lemma dict_get_absent [simp]: "map_of evt k = None \<Longrightarrow> dict_get evt k = PNone"
  by (simp add: dict_get_def)

lemma dict_get_present [simp]: "map_of evt k = Some v \<Longrightarrow> dict_get evt k = v"
  by (simp add: dict_get_def)

lemma kinds_of_alert [simp]:
  "is_tachycardia (tachycardia_alert p v t)"
  "\<not> is_tachycardia (gait_alert p v t)"
  "\<not> is_tachycardia (steps_alert p v t)"
  "\<not> is_low_gait (tachycardia_alert p v t)"
  "is_low_gait (gait_alert p v t)"
  "\<not> is_low_gait (steps_alert p v t)"
  "\<not> is_step_surge (tachycardia_alert p v t)"
  "\<not> is_step_surge (gait_alert p v t)"
  "is_step_surge (steps_alert p v t)"
  "\<not> is_special (tachycardia_alert p v t)"
  "\<not> is_special (gait_alert p v t)"
  "\<not> is_special (steps_alert p v t)"
  "is_special (special_alert m)"
  by (simp_all add: is_tachycardia_def is_low_gait_def is_step_surge_def is_special_def
      startswith_def tachycardia_alert_def gait_alert_def steps_alert_def special_alert_def)

text \<open>
  What a call prints when the message decoded to a \<^verbatim>\<open>dict\<close>: the three rules in
  the order of the source, the last two only if the conversion of the gait score
  did not raise.
\<close>

lemma stdout_structured:
  assumes "try_parse_json loads message = Inr (PDict evt)"
  shows "stdout (snd (process_message loads message w)) =
         stdout w
         @ (if int_above (dict_get evt ''hr'') 120
            then [tachycardia_alert (dict_get evt ''patient_id'') (dict_get evt ''hr'')
                    (dict_get evt ''ts'')]
            else [])
         @ (case gait_low (dict_get evt ''gait_score'') of
              Inl e \<Rightarrow> []
            | Inr low \<Rightarrow>
                (if low
                 then [gait_alert (dict_get evt ''patient_id'') (dict_get evt ''gait_score'')
                         (dict_get evt ''ts'')]
                 else [])
                @ (if int_above (dict_get evt ''steps'') 12
                   then [steps_alert (dict_get evt ''patient_id'') (dict_get evt ''steps'')
                           (dict_get evt ''ts'')]
                   else []))"
  using assms by (simp add: process_message_def Let_def split: sum.splits)

lemma raised_structured:
  assumes "try_parse_json loads message = Inr (PDict evt)"
  shows "fst (process_message loads message w) =
         (case gait_low (dict_get evt ''gait_score'') of Inl e \<Rightarrow> Some e | Inr low \<Rightarrow> None)"
  using assms by (simp add: process_message_def Let_def split: sum.splits)

lemma process_message_plain:
  assumes "try_parse_json loads message = Inr PNone"
  shows "process_message loads message w =
         (None, if str_contains message special
                then emit (special_alert message)
                       (logger_info (''Processing message: '' @ message) w)
                else logger_info (''Processing message: '' @ message) w)"
  using assms by (simp add: process_message_def Let_def)

lemma int_above_PInt [simp]: "int_above (PInt n) k = (k < n)"
  by (simp add: int_above_def)

lemma startswith_prefix: "startswith s p = prefix p s"
proof
  assume "startswith s p"
  then have "s = p @ drop (length p) s"
    by (metis append_take_drop_id startswith_def)
  then show "prefix p s"
    by (metis prefixI)
next
  assume "prefix p s"
  then show "startswith s p"
    by (auto simp: startswith_def prefix_def)
qed


lemma str_contains_sublist: "str_contains hay needle = sublist needle hay"
  by (induction hay) (simp_all add: sublist_Cons_right startswith_prefix)

lemma rendered_get [simp]: "py_str (dict_get evt k) = rendered evt k"
  by (simp add: rendered_def dict_get_def split: option.splits)

lemma process_message_appends:
  "process_message loads message w =
     (fst (process_message loads message world0),
      w\<lparr>stdout := stdout w @ stdout (snd (process_message loads message world0)),
        logged := logged w @ logged (snd (process_message loads message world0))\<rparr>)"
  by (simp add: process_message_def Let_def world0_def emit_def print_def logger_info_def
      logger_warning_def split: sum.splits pyval.splits)

lemma printed_by_world0: "printed_by loads message w = stdout (snd (process_message loads message world0))"
  by (subst printed_by_def, subst process_message_appends) simp

lemma logged_by_world0: "logged_by loads message w = logged (snd (process_message loads message world0))"
  by (subst logged_by_def, subst process_message_appends) simp

lemma raised_world0: "fst (process_message loads message w) = fst (process_message loads message world0)"
  by (subst process_message_appends) simp

lemma printed_structured:
  assumes "try_parse_json loads message = Inr (PDict evt)"
  shows "printed_by loads message w =
         (if int_above (dict_get evt ''hr'') 120
          then [tachycardia_alert (dict_get evt ''patient_id'') (dict_get evt ''hr'')
                  (dict_get evt ''ts'')]
          else [])
         @ (case gait_low (dict_get evt ''gait_score'') of
              Inl e \<Rightarrow> []
            | Inr low \<Rightarrow>
                (if low
                 then [gait_alert (dict_get evt ''patient_id'') (dict_get evt ''gait_score'')
                         (dict_get evt ''ts'')]
                 else [])
                @ (if int_above (dict_get evt ''steps'') 12
                   then [steps_alert (dict_get evt ''patient_id'') (dict_get evt ''steps'')
                           (dict_get evt ''ts'')]
                   else []))"
  by (simp add: printed_by_def stdout_structured [OF assms])

lemma printed_plain:
  assumes "try_parse_json loads message = Inr PNone"
  shows "printed_by loads message w =
         (if str_contains message special then [special_alert message] else [])"
  by (simp add: printed_by_def process_message_plain [OF assms])

text \<open>The alerts of each kind that a call on a decoded object prints.\<close>

lemma tachycardia_part:
  assumes "try_parse_json loads message = Inr (PDict evt)"
  shows "filter is_tachycardia (printed_by loads message w) =
         (if int_above (dict_get evt ''hr'') 120
          then [tachycardia_alert (dict_get evt ''patient_id'') (dict_get evt ''hr'')
                  (dict_get evt ''ts'')]
          else [])"
  by (simp add: printed_structured [OF assms] split: sum.splits)

lemma gait_part:
  assumes "try_parse_json loads message = Inr (PDict evt)"
  shows "filter is_low_gait (printed_by loads message w) =
         (case gait_low (dict_get evt ''gait_score'') of
            Inl e \<Rightarrow> []
          | Inr low \<Rightarrow>
              if low
              then [gait_alert (dict_get evt ''patient_id'') (dict_get evt ''gait_score'')
                      (dict_get evt ''ts'')]
              else [])"
  by (simp add: printed_structured [OF assms] split: sum.splits)

lemma steps_part:
  assumes "try_parse_json loads message = Inr (PDict evt)"
  shows "filter is_step_surge (printed_by loads message w) =
         (case gait_low (dict_get evt ''gait_score'') of
            Inl e \<Rightarrow> []
          | Inr low \<Rightarrow>
              if int_above (dict_get evt ''steps'') 12
              then [steps_alert (dict_get evt ''patient_id'') (dict_get evt ''steps'')
                      (dict_get evt ''ts'')]
              else [])"
  by (simp add: printed_structured [OF assms] split: sum.splits)

lemma special_part:
  assumes "try_parse_json loads message = Inr (PDict evt)"
  shows "filter is_special (printed_by loads message w) = []"
  by (simp add: printed_structured [OF assms] split: sum.splits)

lemma gait_low_bool: "gait_low (PBool False) = Inr True" "gait_low (PBool True) = Inr False"
  by code_simp+

lemma int_above_other: "\<forall>n. v \<noteq> PInt n \<Longrightarrow> 1 \<le> k \<Longrightarrow> \<not> int_above v k"
  by (cases v) (auto simp: int_above_def)

lemma gait_low_other:
  "\<forall>n. v \<noteq> PInt n \<Longrightarrow> \<forall>x. v \<noteq> PFloat x \<Longrightarrow> v \<noteq> PBool False \<Longrightarrow> gait_low v = Inr False"
  by (cases v) (auto simp: gait_low_bool, auto simp: gait_low_def)

text \<open>
  \<^verbatim>\<open>float(n)\<close> raises for every integer from \<open>2^1024\<close> on, and so does the gait
  rule.
\<close>

lemma bit_length_gt: "2 ^ k \<le> n \<Longrightarrow> k < bit_length n"
proof (induction k arbitrary: n)
  case 0
  then show ?case by (simp add: bit_length.simps)
next
  case (Suc k)
  then have "2 ^ k \<le> n div 2" by simp
  then have "k < bit_length (n div 2)" by (rule Suc.IH)
  moreover from Suc.prems have "0 < n"
    by (smt (verit) zero_less_power)
  ultimately show ?case by (simp add: bit_length.simps [of n])
qed

lemma bit_length_nonpos: "n \<le> 0 \<Longrightarrow> bit_length n = 0"
  by (simp add: bit_length.simps)

lemma normalise_overflow: "971 < e \<Longrightarrow> normalise m e = None"
  by (simp add: normalise_def)

lemma bit_length_lower: "0 < n \<Longrightarrow> 2 ^ (bit_length n - 1) \<le> n"
proof (induction n rule: bit_length.induct)
  case (1 n)
  show ?case
  proof (cases "n div 2 \<le> 0")
    case True
    with 1 have "bit_length n = 1"
      by (simp add: bit_length.simps [of n] bit_length_nonpos)
    with 1 show ?thesis by simp
  next
    case False
    with 1 have ih: "2 ^ (bit_length (n div 2) - 1) \<le> n div 2" by simp
    from False have pos: "0 < bit_length (n div 2)"
      by (simp add: bit_length.simps [of "n div 2"])
    from 1 have "bit_length n = Suc (bit_length (n div 2))"
      by (simp add: bit_length.simps [of n])
    then have "2 ^ (bit_length n - 1) = (2::int) * 2 ^ (bit_length (n div 2) - 1)"
      using pos by (cases "bit_length (n div 2)") simp_all
    with ih show ?thesis by simp
  qed
qed

lemma bit_length_one: "bit_length 1 = 1"
  by (simp add: bit_length.simps [of 1] bit_length.simps [of 0])

lemma round_overflow:
  assumes "2 ^ 1024 \<le> n"
  shows "round_to_double n 1 = None"
proof -
  from assms have pos: "0 < n"
    by (smt (verit) zero_less_power)
  from assms have big: "1024 < bit_length n"
    by (rule bit_length_gt)
  from pos have low: "2 ^ (bit_length n - 1) \<le> n"
    by (rule bit_length_lower)
  from big have b: "int (bit_length n) - int (bit_length 1) = int (bit_length n - 1)"
    by (simp add: bit_length_one)
  from low have fl: "floor_log2 n 1 = int (bit_length n - 1)"
    by (simp add: floor_log2_def floor_log2_near_def b)
  from big have e: "max (floor_log2 n 1 - 52) (- 1074) = int (bit_length n - 1) - 52"
    and e': "971 < int (bit_length n - 1) - 52"
    by (simp_all add: fl)
  show ?thesis
    unfolding round_to_double_def e
    using pos e' by (simp add: normalise_overflow)
qed

lemma float_of_int_overflow: "2 ^ 1024 \<le> \<bar>n\<bar> \<Longrightarrow> float_of_int n = Inl OverflowError"
  by (simp add: float_of_int_def round_overflow)

lemma gait_low_overflow: "2 ^ 1024 \<le> \<bar>n\<bar> \<Longrightarrow> gait_low (PInt n) = Inl OverflowError"
  by (simp add: gait_low_def float_of_int_overflow)

lemma huge_gait_score:
  assumes "try_parse_json loads message = Inr (PDict evt)"
    and "dict_get evt ''gait_score'' = PInt n" and "2 ^ 1024 \<le> \<bar>n\<bar>"
  shows "fst (process_message loads message w) = Some OverflowError"
    and "filter is_low_gait (printed_by loads message w) = []"
    and "filter is_step_surge (printed_by loads message w) = []"
  using assms(2,3)
  by (simp_all add: raised_structured [OF assms(1)] gait_part [OF assms(1)]
      steps_part [OF assms(1)] gait_low_overflow)

lemma stdout_appends:
  "stdout (snd (process_message loads message w)) = stdout w @ printed_by loads message w"
proof -
  have "stdout (snd (process_message loads message w)) =
        stdout w @ stdout (snd (process_message loads message world0))"
    by (subst process_message_appends) simp
  then show ?thesis
    by (simp add: printed_by_world0)
qed

lemma printed_by_any_world: "printed_by loads message w = printed_by loads message w'"
  by (simp add: printed_by_world0)

lemma logged_by_any_world: "logged_by loads message w = logged_by loads message w'"
  by (simp add: logged_by_world0)



section \<open>The tachycardia rule\<close>



section \<open>Booleans and absent fields\<close>

text \<open>
  C9. A gait score that is the boolean \<^verbatim>\<open>false\<close> passes the type test and counts as
  0, which is below 0.40: the low-gait-score alert is printed, with the score
  shown as \<^verbatim>\<open>False\<close>.
\<close>

theorem false_gait_score_triggers:
  "try_parse_json loads message = Inr (PDict evt) \<and> map_of evt ''gait_score'' = Some (PBool False)
   \<longrightarrow> filter is_low_gait (printed_by loads message w) =
       [''ALERT Low gait_score: patient='' @ rendered evt ''patient_id''
        @ '' gait_score=False ts='' @ rendered evt ''ts'']"
proof
  assume a: "try_parse_json loads message = Inr (PDict evt)
             \<and> map_of evt ''gait_score'' = Some (PBool False)"
  then have p: "try_parse_json loads message = Inr (PDict evt)"
    and g: "dict_get evt ''gait_score'' = PBool False"
    by simp_all
  show "filter is_low_gait (printed_by loads message w) =
       [''ALERT Low gait_score: patient='' @ rendered evt ''patient_id''
        @ '' gait_score=False ts='' @ rendered evt ''ts'']"
    by (simp add: gait_part [OF p] g gait_low_bool gait_alert_def)
qed

theorem false_gait_score_triggers_witness:
  "try_parse_json json_loads message_false = Inr (PDict [(''gait_score'', PBool False)])
   \<and> map_of [(''gait_score'', PBool False)] ''gait_score'' = Some (PBool False)
   \<and> filter is_low_gait (printed_by json_loads message_false world0) =
       [''ALERT Low gait_score: patient=None gait_score=False ts=None'']"
proof -
  have p: "try_parse_json json_loads message_false = Inr (PDict [(''gait_score'', PBool False)])"
    by code_simp
  have r: "rendered [(''gait_score'', PBool False)] ''patient_id'' = ''None''"
    "rendered [(''gait_score'', PBool False)] ''ts'' = ''None''"
    by (simp_all add: rendered_def)
  from p r
    false_gait_score_triggers [where loads = json_loads and message = message_false
      and evt = "[(''gait_score'', PBool False)]" and w = world0]
  show ?thesis
    by simp
qed



section \<open>No state between calls\<close>

text \<open>
  C8. A call reads nothing of the world it is given: the exception it ends with,
  the lines it prints and the entries it logs are the same from every world, so
  two calls on the same message print the same alerts, and the second call
  prints them again after those of the first.
\<close>

theorem evaluation_is_stateless:
  "fst (process_message loads message w2) = fst (process_message loads message w1)
   \<and> printed_by loads message w2 = printed_by loads message w1
   \<and> logged_by loads message w2 = logged_by loads message w1
   \<and> stdout (snd (process_message loads message w1)) = stdout w1 @ printed_by loads message w1
   \<and> stdout (snd (process_message loads message (snd (process_message loads message w1)))) =
       stdout w1 @ printed_by loads message w1 @ printed_by loads message w1"
proof (intro conjI)
  show "fst (process_message loads message w2) = fst (process_message loads message w1)"
    by (metis raised_world0)
  show "printed_by loads message w2 = printed_by loads message w1"
    by (rule printed_by_any_world)
  show "logged_by loads message w2 = logged_by loads message w1"
    by (rule logged_by_any_world)
  show "stdout (snd (process_message loads message w1)) = stdout w1 @ printed_by loads message w1"
    by (rule stdout_appends)
  have "stdout (snd (process_message loads message (snd (process_message loads message w1)))) =
        stdout (snd (process_message loads message w1))
        @ printed_by loads message (snd (process_message loads message w1))"
    by (rule stdout_appends)
  also have "stdout (snd (process_message loads message w1)) = stdout w1 @ printed_by loads message w1"
    by (rule stdout_appends)
  also have "printed_by loads message (snd (process_message loads message w1)) =
             printed_by loads message w1"
    by (rule printed_by_any_world)
  finally show "stdout (snd (process_message loads message (snd (process_message loads message w1)))) =
       stdout w1 @ printed_by loads message w1 @ printed_by loads message w1"
    by simp
qed

section \<open>Which path a message takes\<close>



text \<open>
  C6. The special-message rule belongs to the plain-text path. There, a message
  in which \<^verbatim>\<open>I just loved a movie! It was funny.\<close> occurs prints exactly the alert
  \<^verbatim>\<open>ALERT: The special message was found!\<close>, a line break and the whole message,
  and a message without it prints nothing. A message that decoded to an object
  prints no special-message alert, whatever it contains.
\<close>

theorem special_message_rule:
  "(try_parse_json loads message = Inr PNone \<and> (\<exists>pre post. message = pre @ special @ post) \<longrightarrow>
      printed_by loads message w =
        [''ALERT: The special message was found!'' @ [CHR 0x0A] @ message])
   \<and> (try_parse_json loads message = Inr PNone \<and> \<not> (\<exists>pre post. message = pre @ special @ post) \<longrightarrow>
      printed_by loads message w = [])
   \<and> (try_parse_json loads message = Inr (PDict evt) \<longrightarrow>
      filter is_special (printed_by loads message w) = [])
   \<and> special = ''I just loved a movie! It was funny.''"
proof (intro conjI impI)
  assume "try_parse_json loads message = Inr PNone \<and> (\<exists>pre post. message = pre @ special @ post)"
  then show "printed_by loads message w =
        [''ALERT: The special message was found!'' @ [CHR 0x0A] @ message]"
    by (simp add: printed_plain str_contains_sublist sublist_def special_alert_def)
next
  assume "try_parse_json loads message = Inr PNone
          \<and> \<not> (\<exists>pre post. message = pre @ special @ post)"
  then show "printed_by loads message w = []"
    by (simp add: printed_plain str_contains_sublist sublist_def)
next
  assume "try_parse_json loads message = Inr (PDict evt)"
  then show "filter is_special (printed_by loads message w) = []"
    by (rule special_part)
next
  show "special = ''I just loved a movie! It was funny.''"
    by (simp add: special_def)
qed

theorem special_message_rule_witness:
  "try_parse_json json_loads message_movie = Inr PNone
   \<and> message_movie = [] @ special @ []
   \<and> printed_by json_loads message_movie world0 =
       [''ALERT: The special message was found!'' @ [CHR 0x0A] @ message_movie]
   \<and> try_parse_json json_loads message_trailing = Inr PNone
   \<and> \<not> sublist special message_trailing
   \<and> printed_by json_loads message_trailing world0 = []
   \<and> try_parse_json json_loads message_note = Inr (PDict [(''note'', PStr special)])
   \<and> sublist special message_note
   \<and> filter is_special (printed_by json_loads message_note world0) = []"
proof -
  have m: "try_parse_json json_loads message_movie = Inr PNone"
    by code_simp
  have e: "message_movie = [] @ special @ []"
    by (simp add: message_movie_def special_def)
  then have "\<exists>pre post. message_movie = pre @ special @ post"
    by blast
  with m special_message_rule [where loads = json_loads and message = message_movie and w = world0]
  have 1: "printed_by json_loads message_movie world0 =
       [''ALERT: The special message was found!'' @ [CHR 0x0A] @ message_movie]"
    by blast
  have t: "try_parse_json json_loads message_trailing = Inr PNone"
    by code_simp
  have n: "\<not> sublist special message_trailing"
    by code_simp
  then have "\<not> (\<exists>pre post. message_trailing = pre @ special @ post)"
    by (simp add: sublist_def)
  with t special_message_rule [where loads = json_loads and message = message_trailing
      and w = world0]
  have 2: "printed_by json_loads message_trailing world0 = []"
    by blast
  have d: "try_parse_json json_loads message_note = Inr (PDict [(''note'', PStr special)])"
    by code_simp
  have c: "sublist special message_note"
    by code_simp
  from d special_message_rule [where loads = json_loads and message = message_note
      and w = world0 and evt = "[(''note'', PStr special)]"]
  have 3: "filter is_special (printed_by json_loads message_note world0) = []"
    by blast
  from m e 1 t n 2 d c 3 show ?thesis
    by blast
qed

section \<open>The type tests\<close>

text \<open>
  C1, as the code has it. A value that is not of the type a rule asks for does not
  trigger the rule, where a boolean counts as the integer 0 or 1: for \<^verbatim>\<open>hr\<close> and
  \<^verbatim>\<open>steps\<close> nothing but an integer triggers, so a boolean, a float, a string or
  \<^verbatim>\<open>null\<close> never does; for \<^verbatim>\<open>gait_score\<close> nothing but an integer, a float or the
  boolean \<^verbatim>\<open>false\<close> triggers, so \<^verbatim>\<open>true\<close>, a string or \<^verbatim>\<open>null\<close> never does. The gait
  score is accepted both as a float and as an integer.
\<close>

theorem wrong_type_never_triggers:
  "try_parse_json loads message = Inr (PDict evt) \<longrightarrow>
     ((\<forall>n. dict_get evt ''hr'' \<noteq> PInt n) \<longrightarrow>
        filter is_tachycardia (printed_by loads message w) = [])
     \<and> ((\<forall>n. dict_get evt ''steps'' \<noteq> PInt n) \<longrightarrow>
        filter is_step_surge (printed_by loads message w) = [])
     \<and> ((\<forall>n. dict_get evt ''gait_score'' \<noteq> PInt n)
         \<and> (\<forall>x. dict_get evt ''gait_score'' \<noteq> PFloat x)
         \<and> dict_get evt ''gait_score'' \<noteq> PBool False \<longrightarrow>
        filter is_low_gait (printed_by loads message w) = [])
     \<and> (dict_get evt ''gait_score'' = PFloat x \<and> float_lt x f040 \<longrightarrow>
        filter is_low_gait (printed_by loads message w) =
          [gait_alert (dict_get evt ''patient_id'') (PFloat x) (dict_get evt ''ts'')])
     \<and> (dict_get evt ''gait_score'' = PInt n \<and> float_of_int n = Inr x \<and> float_lt x f040 \<longrightarrow>
        filter is_low_gait (printed_by loads message w) =
          [gait_alert (dict_get evt ''patient_id'') (PInt n) (dict_get evt ''ts'')])"
proof (intro conjI impI)
  assume p: "try_parse_json loads message = Inr (PDict evt)"
  {
    assume "\<forall>n. dict_get evt ''hr'' \<noteq> PInt n"
    then have "\<not> int_above (dict_get evt ''hr'') 120"
      by (simp add: int_above_other)
    then show "filter is_tachycardia (printed_by loads message w) = []"
      by (simp add: tachycardia_part [OF p])
  }
  {
    assume "\<forall>n. dict_get evt ''steps'' \<noteq> PInt n"
    then have "\<not> int_above (dict_get evt ''steps'') 12"
      by (simp add: int_above_other)
    then show "filter is_step_surge (printed_by loads message w) = []"
      by (simp add: steps_part [OF p] split: sum.splits)
  }
  {
    assume "(\<forall>n. dict_get evt ''gait_score'' \<noteq> PInt n)
         \<and> (\<forall>x. dict_get evt ''gait_score'' \<noteq> PFloat x)
         \<and> dict_get evt ''gait_score'' \<noteq> PBool False"
    then have "gait_low (dict_get evt ''gait_score'') = Inr False"
      by (simp add: gait_low_other)
    then show "filter is_low_gait (printed_by loads message w) = []"
      by (simp add: gait_part [OF p])
  }
  {
    assume a: "dict_get evt ''gait_score'' = PFloat x \<and> float_lt x f040"
    then have "gait_low (dict_get evt ''gait_score'') = Inr True"
      by (simp add: gait_low_def)
    with a show "filter is_low_gait (printed_by loads message w) =
          [gait_alert (dict_get evt ''patient_id'') (PFloat x) (dict_get evt ''ts'')]"
      by (simp add: gait_part [OF p])
  }
  {
    assume a: "dict_get evt ''gait_score'' = PInt n \<and> float_of_int n = Inr x \<and> float_lt x f040"
    then have "gait_low (dict_get evt ''gait_score'') = Inr True"
      by (simp add: gait_low_def)
    with a show "filter is_low_gait (printed_by loads message w) =
          [gait_alert (dict_get evt ''patient_id'') (PInt n) (dict_get evt ''ts'')]"
      by (simp add: gait_part [OF p])
  }
qed

theorem wrong_type_never_triggers_witness:
  "try_parse_json json_loads message_types = Inr (PDict event_types)
   \<and> (\<forall>n. dict_get event_types ''hr'' \<noteq> PInt n)
   \<and> (\<forall>n. dict_get event_types ''steps'' \<noteq> PInt n)
   \<and> dict_get event_types ''gait_score'' = PInt 0
   \<and> float_of_int 0 = Inr (Finite False 0 0) \<and> float_lt (Finite False 0 0) f040
   \<and> filter is_tachycardia (printed_by json_loads message_types world0) = []
   \<and> filter is_step_surge (printed_by json_loads message_types world0) = []
   \<and> filter is_low_gait (printed_by json_loads message_types world0) =
       [''ALERT Low gait_score: patient=None gait_score=0 ts=None'']"
proof -
  have p: "try_parse_json json_loads message_types = Inr (PDict event_types)"
    by code_simp
  have h: "dict_get event_types ''hr'' = PBool True"
    and s: "dict_get event_types ''steps'' = PFloat (Finite False 5629499534213120 (- 45))"
    and g: "dict_get event_types ''gait_score'' = PInt 0"
    and a: "dict_get event_types ''patient_id'' = PNone" "dict_get event_types ''ts'' = PNone"
    by (simp_all add: event_types_def dict_get_def)
  have f: "float_of_int 0 = Inr (Finite False 0 0)" "float_lt (Finite False 0 0) f040"
    "int_str 0 = ''0''"
    by code_simp+
  from p h s g a f
    wrong_type_never_triggers [where loads = json_loads and message = message_types
      and evt = event_types and w = world0 and n = 0 and x = "Finite False 0 0"]
  show ?thesis
    by (simp add: gait_alert_def del: rendered_get)
qed

theorem boolean_gait_score_counterexample:
  "try_parse_json json_loads message_p9 =
     Inr (PDict [(''gait_score'', PBool False), (''patient_id'', PStr ''p9''), (''ts'', PStr ''t9'')])
   \<and> printed_by json_loads message_p9 world0 =
       [''ALERT Low gait_score: patient=p9 gait_score=False ts=t9'']"
  by code_simp

section \<open>A gait score too large for a float\<close>

text \<open>
  C7. The call is not free of exceptions: \<^verbatim>\<open>float(gait)\<close> raises \<^verbatim>\<open>OverflowError\<close> for
  an integer from \<open>2^1024\<close> on, and nothing catches it. The message is an object
  whose gait score is the integer 1 followed by 309 zeros.
\<close>

theorem huge_gait_score_raises:
  "try_parse_json json_loads message_huge = Inr (PDict [(''gait_score'', PInt (10 ^ 309))])
   \<and> fst (process_message json_loads message_huge world0) = Some OverflowError"
proof -
  have p: "try_parse_json json_loads message_huge = Inr (PDict [(''gait_score'', PInt (10 ^ 309))])"
    by code_simp
  have g: "dict_get [(''gait_score'', PInt (10 ^ 309))] ''gait_score'' = PInt (10 ^ 309)"
    by (simp add: dict_get_def)
  have b: "(2 :: int) ^ 1024 \<le> \<bar>10 ^ 309\<bar>"
    by simp
  from p huge_gait_score(1) [OF p g b] show ?thesis
    by simp
qed

text \<open>
  C3 at a gait score below 0.40 that prints no alert: the integer \<open>- 10^309\<close>. The
  call ends with \<^verbatim>\<open>OverflowError\<close> and has printed nothing.
\<close>

theorem negative_huge_gait_score_prints_nothing:
  "try_parse_json json_loads message_huge_negative =
     Inr (PDict [(''gait_score'', PInt (- (10 ^ 309))), (''patient_id'', PStr ''p2''),
                 (''ts'', PStr ''t2'')])
   \<and> printed_by json_loads message_huge_negative world0 = []
   \<and> fst (process_message json_loads message_huge_negative world0) = Some OverflowError"
proof -
  have p: "try_parse_json json_loads message_huge_negative =
     Inr (PDict [(''gait_score'', PInt (- (10 ^ 309))), (''patient_id'', PStr ''p2''),
                 (''ts'', PStr ''t2'')])"
    by code_simp
  have b: "(2 :: int) ^ 1024 \<le> \<bar>- (10 ^ 309)\<bar>"
    by simp
  have "dict_get [(''gait_score'', PInt (- (10 ^ 309))), (''patient_id'', PStr ''p2''),
                 (''ts'', PStr ''t2'')] ''gait_score'' = PInt (- (10 ^ 309))"
    by (simp add: dict_get_def)
  with b have g: "gait_low (dict_get [(''gait_score'', PInt (- (10 ^ 309))),
      (''patient_id'', PStr ''p2''), (''ts'', PStr ''t2'')] ''gait_score'') = Inl OverflowError"
    by (simp only: gait_low_overflow)
  have 1: "printed_by json_loads message_huge_negative world0 = []"
    apply (subst printed_structured [OF p])
    apply (simp only: g sum.case)
    apply (simp add: dict_get_def int_above_def)
    done
  have 2: "fst (process_message json_loads message_huge_negative world0) = Some OverflowError"
    apply (subst raised_structured [OF p])
    apply (simp only: g sum.case)
    done
  from p 1 2 show ?thesis
    by simp
qed

text \<open>
  C4 at a message in which the rule on the gait score stops the rule on the
  steps: \<^verbatim>\<open>hr\<close> is 130, \<^verbatim>\<open>steps\<close> is 20 and the gait score is \<open>10^309\<close>. The
  tachycardia alert is printed, then the call ends with \<^verbatim>\<open>OverflowError\<close>, and the
  step-surge alert is not printed although 20 is above 12.
\<close>

theorem huge_gait_score_stops_step_rule:
  "try_parse_json json_loads message_huge_steps =
     Inr (PDict [(''hr'', PInt 130), (''steps'', PInt 20), (''gait_score'', PInt (10 ^ 309))])
   \<and> int_above (PInt 20) 12
   \<and> printed_by json_loads message_huge_steps world0 =
       [''ALERT Tachycardia: patient=None hr=130 ts=None'']
   \<and> fst (process_message json_loads message_huge_steps world0) = Some OverflowError"
proof -
  have p: "try_parse_json json_loads message_huge_steps =
     Inr (PDict [(''hr'', PInt 130), (''steps'', PInt 20), (''gait_score'', PInt (10 ^ 309))])"
    by code_simp
  have b: "(2 :: int) ^ 1024 \<le> \<bar>10 ^ 309\<bar>"
    by simp
  have "dict_get [(''hr'', PInt 130), (''steps'', PInt 20), (''gait_score'', PInt (10 ^ 309))]
          ''gait_score'' = PInt (10 ^ 309)"
    by (simp add: dict_get_def)
  with b have g: "gait_low (dict_get [(''hr'', PInt 130), (''steps'', PInt 20),
      (''gait_score'', PInt (10 ^ 309))] ''gait_score'') = Inl OverflowError"
    by (simp only: gait_low_overflow)
  have e: "int_str 130 = ''130''"
    by code_simp
  have 1: "printed_by json_loads message_huge_steps world0 =
       [''ALERT Tachycardia: patient=None hr=130 ts=None'']"
    apply (subst printed_structured [OF p])
    apply (simp only: g sum.case)
    apply (simp add: dict_get_def tachycardia_alert_def e del: rendered_get)
    done
  have 2: "fst (process_message json_loads message_huge_steps world0) = Some OverflowError"
    apply (subst raised_structured [OF p])
    apply (simp only: g sum.case)
    done
  from p 1 2 show ?thesis
    by simp
qed

text \<open>
  The examples of C3 and C4, where the gait score is a float or absent: the
  alerts are printed as the claims say, and a gait score of 0.40 prints nothing.
\<close>

lemma low_gait_score_example:
  "printed_by json_loads message_p2 world0 =
     [''ALERT Low gait_score: patient=p2 gait_score=0.2 ts=t2'']"
  "printed_by json_loads message_040 world0 = []"
  by code_simp+

lemma two_alerts_example:
  "printed_by json_loads message_p3 world0 =
     [''ALERT Tachycardia: patient=p3 hr=130 ts=t3'',
      ''ALERT Step surge: patient=p3 steps=20 ts=t3'']"
  by code_simp

end
